theory Spec2Isabelle
  imports Complex_Main "HOL-Library.AList"
begin

section \<open>Text and values of the Python program\<close>

text \<open>
  A Python \<open>str\<close> is a sequence of Unicode code points. It is modelled as a list of
  natural numbers, one per code point, so that \<open>len\<close> counts what Python counts and the
  Chinese literals of the source can be written down exactly (as their code points).
  \<open>py\<close> turns an ASCII literal of this theory into such a text.
\<close>

type_synonym pystr = "nat list"

definition py :: "string \<Rightarrow> pystr" where
  "py s = map of_char s"

text \<open>
  \<open>str.isspace\<close> of one code point, which is also the class \<open>\s\<close> of \<open>re\<close> on
  \<open>str\<close> patterns: TAB..CR, FS..US, SPACE, NEL, NBSP, OGHAM SPACE MARK, EN QUAD..HAIR
  SPACE, LINE and PARAGRAPH SEPARATOR, NNBSP, MMSP and IDEOGRAPHIC SPACE.
\<close>

definition is_space :: "nat \<Rightarrow> bool" where
  "is_space c \<longleftrightarrow>
     (9 \<le> c \<and> c \<le> 13) \<or> (28 \<le> c \<and> c \<le> 32) \<or> c = 133 \<or> c = 160 \<or> c = 5760 \<or>
     (8192 \<le> c \<and> c \<le> 8202) \<or> c = 8232 \<or> c = 8233 \<or> c = 8239 \<or> c = 8287 \<or> c = 12288"

text \<open>The backtick, code point 96, and the newline, code point 10.\<close>

definition backtick :: nat where
  "backtick = 96"

definition newline :: nat where
  "newline = 10"

definition fence :: pystr where
  "fence = [backtick, backtick, backtick]"

text \<open>\<open>s.strip()\<close> and \<open>s.strip('`')\<close>: the longest runs at both ends are removed.\<close>

definition strip_where :: "(nat \<Rightarrow> bool) \<Rightarrow> pystr \<Rightarrow> pystr" where
  "strip_where p s = rev (dropWhile p (rev (dropWhile p s)))"

definition py_strip :: "pystr \<Rightarrow> pystr" where
  "py_strip s = strip_where is_space s"

definition strip_backticks :: "pystr \<Rightarrow> pystr" where
  "strip_backticks s = strip_where (\<lambda>c. c = backtick) s"

text \<open>
  \<open>re.sub(r'^```(?:json)?\s*\n?', '', s)\<close>. The pattern is anchored at the start of the
  text, so it matches at most once: three backticks, then \<open>json\<close> when it is there (the
  optional group is greedy and nothing after it can fail), then all the white space that
  follows (the greedy \<open>\s*\<close> also takes the newlines, leaving nothing to \<open>\n?\<close>).
\<close>

definition strip_open_fence :: "pystr \<Rightarrow> pystr" where
  "strip_open_fence s =
     (if take 3 s = fence
      then (let t = drop 3 s;
                u = (if take 4 t = py ''json'' then drop 4 t else t)
            in dropWhile is_space u)
      else s)"

text \<open>
  \<open>re.sub(r'\n?```\s*$', '', s)\<close>. A match at a position is an optional newline, three
  backticks and white space up to the end of the text (\<open>$\<close> also holds before a final
  newline, which \<open>\s*\<close> covers), so a match always runs to the end and the leftmost one
  is the only one replaced. \<open>close_fence_here\<close> says that the pattern matches the whole
  of the rest.
\<close>

definition fence_then_space :: "pystr \<Rightarrow> bool" where
  "fence_then_space t \<longleftrightarrow> take 3 t = fence \<and> list_all is_space (drop 3 t)"

fun close_fence_here :: "pystr \<Rightarrow> bool" where
  "close_fence_here [] = False"
| "close_fence_here (c # cs) =
     (if c = newline then fence_then_space cs else fence_then_space (c # cs))"

fun strip_close_fence :: "pystr \<Rightarrow> pystr" where
  "strip_close_fence [] = []"
| "strip_close_fence (c # cs) =
     (if close_fence_here (c # cs) then [] else c # strip_close_fence cs)"

text \<open>\<open>BaseAgent._clean_json_response\<close>.\<close>

definition clean_json_response :: "pystr \<Rightarrow> pystr" where
  "clean_json_response response =
     (if response = [] then response
      else (let cleaned = strip_open_fence (py_strip response);
                cleaned = strip_close_fence cleaned;
                cleaned = py_strip (strip_backticks cleaned)
            in cleaned))"

definition starts_with_backtick :: "pystr \<Rightarrow> bool" where
  "starts_with_backtick s \<longleftrightarrow> (case s of [] \<Rightarrow> False | c # _ \<Rightarrow> c = backtick)"

definition ends_with_backtick :: "pystr \<Rightarrow> bool" where
  "ends_with_backtick s \<longleftrightarrow> starts_with_backtick (rev s)"

section \<open>Python values, exceptions and the operations the program applies to them\<close>

text \<open>
  What \<open>json.loads\<close> returns. A \<open>dict\<close> is an association list whose first entry for
  a key is the one that counts; \<open>d[k] = v\<close> is \<open>AList.update\<close>, which replaces in place or
  appends, as Python does. \<open>JFloat r\<close> is the float that the decimal number \<open>r\<close> reads
  as; the program only compares floats with the integers 10, 60 and the banding thresholds,
  adds them and divides by 7, and this development computes those on \<open>r\<close> itself (the
  non-finite floats are left out).
\<close>

datatype json =
    JNull
  | JBool bool
  | JInt int
  | JFloat rat
  | JStr pystr
  | JArr "json list"
  | JObj "(pystr \<times> json) list"

type_synonym pydict = "(pystr \<times> json) list"

text \<open>The exceptions that the modelled code can raise and does not catch.\<close>

datatype exn = TypeError | AttributeError | KeyError | ValueError | IndexError

text \<open>\<open>needle in text\<close> on two \<open>str\<close>: the needle occurs as a contiguous run.\<close>

fun starts_with :: "pystr \<Rightarrow> pystr \<Rightarrow> bool" where
  "starts_with s [] = True"
| "starts_with [] (k # ks) = False"
| "starts_with (c # cs) (k # ks) = (c = k \<and> starts_with cs ks)"

fun contains_text :: "pystr \<Rightarrow> pystr \<Rightarrow> bool" where
  "contains_text [] k = (k = [])"
| "contains_text (c # cs) k = (starts_with (c # cs) k \<or> contains_text cs k)"

text \<open>
  \<open>field in result\<close> for a text \<open>field\<close>: key membership on a dict, element membership on
  a list, substring on a \<open>str\<close>, and \<open>TypeError\<close> on \<open>None\<close>, booleans and numbers.
\<close>

fun py_in :: "pystr \<Rightarrow> json \<Rightarrow> exn + bool" where
  "py_in k (JObj d) = Inr (map_of d k \<noteq> None)"
| "py_in k (JArr xs) = Inr (JStr k \<in> set xs)"
| "py_in k (JStr s) = Inr (contains_text s k)"
| "py_in k v = Inl TypeError"

text \<open>
  \<open>all(field in result for field in fields)\<close>: the generator is consumed from the left
  and \<open>all\<close> stops at the first false item.
\<close>

fun all_in :: "pystr list \<Rightarrow> json \<Rightarrow> exn + bool" where
  "all_in [] v = Inr True"
| "all_in (k # ks) v =
     (case py_in k v of
        Inl e \<Rightarrow> Inl e
      | Inr False \<Rightarrow> Inr False
      | Inr True \<Rightarrow> all_in ks v)"

text \<open>\<open>result[k] = v\<close> with a text key: only a dict takes it.\<close>

fun set_item :: "json \<Rightarrow> pystr \<Rightarrow> json \<Rightarrow> exn + pydict" where
  "set_item (JObj d) k v = Inr (AList.update k v d)"
| "set_item r k v = Inl TypeError"

text \<open>\<open>d[k]\<close> and \<open>d.get(k, default)\<close> on a dict.\<close>

definition get_item :: "pydict \<Rightarrow> pystr \<Rightarrow> exn + json" where
  "get_item d k = (case map_of d k of None \<Rightarrow> Inl KeyError | Some v \<Rightarrow> Inr v)"

definition dict_get :: "pydict \<Rightarrow> pystr \<Rightarrow> json \<Rightarrow> json" where
  "dict_get d k dflt = (case map_of d k of None \<Rightarrow> dflt | Some v \<Rightarrow> v)"

text \<open>\<open>d.update({k1: v1, ...})\<close>: the keys are stored one after the other.\<close>

fun dict_update :: "(pystr \<times> json) list \<Rightarrow> pydict \<Rightarrow> pydict" where
  "dict_update [] d = d"
| "dict_update ((k, v) # kvs) d = dict_update kvs (AList.update k v d)"

text \<open>Truth value of an object, as \<open>if x\<close> and \<open>x and y\<close> take it.\<close>

fun truthy :: "json \<Rightarrow> bool" where
  "truthy JNull = False"
| "truthy (JBool b) = b"
| "truthy (JInt n) = (n \<noteq> 0)"
| "truthy (JFloat r) = (r \<noteq> 0)"
| "truthy (JStr s) = (s \<noteq> [])"
| "truthy (JArr xs) = (xs \<noteq> [])"
| "truthy (JObj d) = (d \<noteq> [])"

text \<open>
  Numbers: \<open>int\<close>, \<open>bool\<close> (an \<open>int\<close> subclass, 0 or 1) and \<open>float\<close>. \<open>a + b\<close> is an
  \<open>int\<close> when both are, a float otherwise.
\<close>

datatype pynum = PInt int | PFloat rat

fun as_num :: "json \<Rightarrow> pynum option" where
  "as_num (JInt n) = Some (PInt n)"
| "as_num (JBool b) = Some (PInt (if b then 1 else 0))"
| "as_num (JFloat r) = Some (PFloat r)"
| "as_num v = None"

fun num_val :: "pynum \<Rightarrow> rat" where
  "num_val (PInt n) = of_int n"
| "num_val (PFloat r) = r"

fun py_add :: "pynum \<Rightarrow> pynum \<Rightarrow> pynum" where
  "py_add (PInt a) (PInt b) = PInt (a + b)"
| "py_add a b = PFloat (num_val a + num_val b)"

text \<open>\<open>x < k\<close> and \<open>x > k\<close> for an integer literal \<open>k\<close>: \<open>TypeError\<close> unless \<open>x\<close> is a number.\<close>

definition py_less :: "json \<Rightarrow> int \<Rightarrow> exn + bool" where
  "py_less x k = (case as_num x of None \<Rightarrow> Inl TypeError | Some n \<Rightarrow> Inr (num_val n < of_int k))"

definition py_greater :: "json \<Rightarrow> int \<Rightarrow> exn + bool" where
  "py_greater x k = (case as_num x of None \<Rightarrow> Inl TypeError | Some n \<Rightarrow> Inr (of_int k < num_val n))"

text \<open>
  \<open>f"{x:.2f}"\<close> formats numbers only: a \<open>str\<close> raises \<open>ValueError\<close> (unknown format
  code), \<open>None\<close>, lists and dicts raise \<open>TypeError\<close> (unsupported format string).
  The text produced is only printed, so only the exception is kept.
\<close>

fun format_2f :: "json \<Rightarrow> exn option" where
  "format_2f (JStr s) = Some ValueError"
| "format_2f v = (case as_num v of None \<Rightarrow> Some TypeError | Some n \<Rightarrow> None)"

text \<open>\<open>str(n)\<close> for an \<open>int\<close>.\<close>

fun str_nat :: "nat \<Rightarrow> pystr" where
  "str_nat n = (if n < 10 then [48 + n] else str_nat (n div 10) @ [48 + n mod 10])"

definition str_int :: "int \<Rightarrow> pystr" where
  "str_int i = (if i < 0 then 45 # str_nat (nat (- i)) else str_nat (nat i))"

section \<open>The agents (cctdi_agents.py)\<close>

subsection \<open>The outside world\<close>

text \<open>
  The model service is outside the repository. \<open>client n\<close> is what the \<open>n\<close>-th call of
  \<open>chat.completions.create\<close> does: it raises (\<open>Inl\<close>, with the text \<open>str(e)\<close> of the
  exception) or returns the content of the completion (\<open>Inr\<close>). The prompts are not
  modelled, since the answers are arbitrary anyway. \<open>json.loads\<close> is outside the
  repository too and is a parameter: \<open>None\<close> is \<open>json.JSONDecodeError\<close>.

  The world records how many completions were requested so far, the seconds slept and
  the shared files.
  Wall-clock timestamps, which no decision of the program reads, are left out of every
  record below.
\<close>

type_synonym client = "nat \<Rightarrow> pystr + pystr"

type_synonym loads = "pystr \<Rightarrow> json option"

text \<open>
  The files shared by all sessions: the ledger \<open>data/user_scores.csv\<close>, absent
  (\<open>None\<close>) or a list of lines, and the reports under \<open>data/assessments\<close>, one per
  session id. Input and output errors of the file system are not modelled (the code
  catches and prints them).
\<close>

datatype ledger_line =
    LedgerHeader
  | LedgerRow pystr pystr "json list" pynum

record final_report =
  report_session_id :: pystr
  total_score :: pynum
  average_score :: rat
  overall_level :: pystr
  report_dimension_scores :: "(nat \<times> pydict) list"
  final_dimension_result :: "json \<times> json \<times> json"

record world =
  calls :: nat
  slept :: "nat list"
  ledger :: "ledger_line list option"
  reports :: "(pystr \<times> final_report) list"

subsection \<open>BaseAgent._call_llm\<close>

text \<open>The literals \<open>U+8C03 U+7528 LLM U+65F6 U+53D1 U+751F U+9519 U+8BEF U+FF08\<close> and
  \<open>U+6B21 U+91CD U+8BD5 U+540E U+5931 U+8D25 U+FF09 : SPACE\<close> of the failure message.\<close>

definition err_head :: pystr where
  "err_head = [35843, 29992, 76, 76, 77, 26102, 21457, 29983, 38169, 35823, 65288]"

definition err_mid :: pystr where
  "err_mid = [27425, 37325, 35797, 21518, 22833, 36133, 65289, 58, 32]"

text \<open>\<open>error_msg\<close>, with \<open>str(last_error)\<close>: \<open>None\<close> prints as \<open>None\<close>.\<close>

definition error_msg :: "int \<Rightarrow> pystr option \<Rightarrow> pystr" where
  "error_msg max_retries last_error =
     err_head @ str_int max_retries @ err_mid @
     (case last_error of None \<Rightarrow> py ''None'' | Some e \<Rightarrow> e)"

text \<open>
  The loop \<open>for attempt in range(max_retries)\<close>, over the attempts still to make. A
  completion is returned at once; an exception is caught, remembered, and followed by
  \<open>time.sleep(2 ** attempt)\<close> unless the attempt was the last one.
\<close>

fun llm_attempts :: "client \<Rightarrow> int \<Rightarrow> nat list \<Rightarrow> pystr option \<Rightarrow> world \<Rightarrow> pystr \<times> world" where
  "llm_attempts cl max_retries [] last_error w = (error_msg max_retries last_error, w)"
| "llm_attempts cl max_retries (attempt # rest) last_error w =
     (case cl (calls w) of
        Inr content \<Rightarrow> (content, w\<lparr>calls := Suc (calls w)\<rparr>)
      | Inl e \<Rightarrow>
          (let w1 = w\<lparr>calls := Suc (calls w)\<rparr>;
               w2 = (if int attempt < max_retries - 1
                     then w1\<lparr>slept := slept w1 @ [2 ^ attempt]\<rparr> else w1)
           in llm_attempts cl max_retries rest (Some e) w2))"

definition call_llm :: "client \<Rightarrow> int \<Rightarrow> world \<Rightarrow> pystr \<times> world" where
  "call_llm cl max_retries w = llm_attempts cl max_retries [0 ..< nat max_retries] None w"

subsection \<open>ScenarioDirectorAgent: the catalogue of dimensions\<close>

record dimension_info =
  dimension_id :: nat
  dimension_name :: pystr
  questions :: "nat list"
  description :: pystr

text \<open>\<open>cctdi_dimensions\<close>: name, question numbers and description of dimensions 1 to 7.\<close>

definition cctdi_dimensions :: "(nat \<times> pystr \<times> nat list \<times> pystr) list" where
  "cctdi_dimensions =
   [(1, [23547, 25214, 30495, 29702], [1 ..< 11],
        [35780, 20272, 20010, 20307, 23547, 27714, 30495, 29702, 21644, 20934, 30830, 20449,
         24687, 30340, 20542, 21521]),
    (2, [24320, 25918, 24605, 24819], [11 ..< 21],
        [35780, 20272, 20010, 20307, 23545, 19981, 21516, 35266, 28857, 21644, 24819, 27861,
         30340, 24320, 25918, 31243, 24230]),
    (3, [20998, 26512, 33021, 21147], [21 ..< 31],
        [35780, 20272, 20010, 20307, 20998, 26512, 21644, 35780, 20272, 20449, 24687, 30340,
         33021, 21147]),
    (4, [31995, 32479, 21270, 33021, 21147], [31 ..< 41],
        [35780, 20272, 20010, 20307, 31995, 32479, 24615, 24605, 32771, 21644, 35299, 20915,
         38382, 39064, 30340, 33021, 21147]),
    (5, [25209, 21028, 24615, 24605, 32500, 33258, 20449], [41 ..< 51],
        [35780, 20272, 20010, 20307, 23545, 33258, 24049, 25209, 21028, 24615, 24605, 32500,
         33021, 21147, 30340, 20449, 24515]),
    (6, [27714, 30693, 27442], [51 ..< 61],
        [35780, 20272, 20010, 20307, 23545, 23398, 20064, 21644, 25506, 32034, 26032, 30693,
         35782, 30340, 28212, 26395]),
    (7, [35748, 30693, 25104, 29087, 24230], [61 ..< 71],
        [35780, 20272, 20010, 20307, 22312, 22797, 26434, 24773, 20917, 19979, 20570, 20986,
         25104, 29087, 21028, 26029, 30340, 33021, 21147])]"

text \<open>\<open>_get_current_dimension_info\<close>: \<open>cctdi_dimensions[current_dimension]\<close> raises
  \<open>KeyError\<close> outside 1..7.\<close>

definition get_current_dimension_info :: "nat \<Rightarrow> exn + dimension_info" where
  "get_current_dimension_info cur =
     (case map_of cctdi_dimensions cur of
        None \<Rightarrow> Inl KeyError
      | Some (name, qs, descr) \<Rightarrow>
          Inr \<lparr>dimension_id = cur, dimension_name = name, questions = qs, description = descr\<rparr>)"

text \<open>\<open>generate_dimension_guidance\<close>: one model call with the default three tries.\<close>

record guidance =
  guidance_dimension_id :: nat
  guidance_dimension_name :: pystr
  guidance_text :: pystr
  questions_range :: "nat list"

definition generate_dimension_guidance :: "client \<Rightarrow> nat \<Rightarrow> world \<Rightarrow> (exn + guidance) \<times> world" where
  "generate_dimension_guidance cl cur w =
     (case map_of cctdi_dimensions cur of
        None \<Rightarrow> (Inl KeyError, w)
      | Some (name, qs, descr) \<Rightarrow>
          (case call_llm cl 3 w of (answer, w1) \<Rightarrow>
             (Inr \<lparr>guidance_dimension_id = cur, guidance_dimension_name = name,
                   guidance_text = answer, questions_range = qs\<rparr>, w1)))"

subsection \<open>AdaptiveNavigatorAgent: interactions and the interaction mode\<close>

record interaction =
  interaction_count :: nat
  mode :: pystr
  question :: pystr
  dimension :: pystr

record user_response =
  content :: pystr
  interaction_id :: nat

text \<open>The three modes (encourage \<open>U+9F13 U+52B1\<close>, normal \<open>U+6B63 U+5E38\<close>, probe
  \<open>U+8FFD U+95EE\<close>) and the four hedge markers of \<open>select_interaction_mode\<close>.\<close>

definition mode_encourage :: pystr where
  "mode_encourage = [40723, 21169]"

definition mode_normal :: pystr where
  "mode_normal = [27491, 24120]"

definition mode_probe :: pystr where
  "mode_probe = [36861, 38382]"

definition hedge_markers :: "pystr list" where
  "hedge_markers = [[19981, 30693, 36947], [19981, 30830, 23450], [19981, 20250], [38590]]"

definition select_interaction_mode :: "user_response list \<Rightarrow> nat \<Rightarrow> pystr" where
  "select_interaction_mode user_responses count =
     (if count = 0 then mode_normal
      else if length user_responses > 0 then
        (let last_response = content (last user_responses) in
         if length last_response < 20 \<or> list_ex (contains_text last_response) hedge_markers
         then mode_encourage
         else if length last_response > 100 then mode_probe
         else mode_normal)
      else mode_normal)"

subsection \<open>DiagnosticAgent.analyze_interaction_sufficiency\<close>

text \<open>Keys and texts of the result dicts.\<close>

definition k_sufficient :: pystr where
  "k_sufficient = py ''sufficient''"

definition k_reason :: pystr where
  "k_reason = py ''reason''"

definition k_recommendation :: pystr where
  "k_recommendation = py ''recommendation''"

definition k_confidence :: pystr where
  "k_confidence = py ''confidence''"

definition k_key_insights :: pystr where
  "k_key_insights = py ''key_insights''"

definition k_missing_aspects :: pystr where
  "k_missing_aspects = py ''missing_aspects''"

definition k_analyzed_interactions :: pystr where
  "k_analyzed_interactions = py ''analyzed_interactions''"

definition k_raw_analysis :: pystr where
  "k_raw_analysis = py ''raw_analysis''"

definition reason_max_rounds :: pystr where
  "reason_max_rounds =
     [24050, 36798, 21040, 26368, 22823, 20132, 20114, 36718, 27425, 40, 53, 36718, 41, 65292,
      24517, 39035, 36827, 34892, 35780, 20998]"

definition reason_too_few :: pystr where
  "reason_too_few =
     [20132, 20114, 36718, 27425, 19981, 36275, 65292, 38656, 35201, 33267, 23569, 51, 36718,
      20132, 20114]"

definition reason_parse_failed :: pystr where
  "reason_parse_failed =
     [74, 83, 79, 78, 35299, 26512, 22833, 36133, 65292, 20351, 29992, 40664, 35748, 21028,
      26029, 36923, 36753]"

definition forced_score :: pydict where
  "forced_score =
     [(k_sufficient, JBool True), (k_reason, JStr reason_max_rounds),
      (k_recommendation, JStr (py ''score'')), (k_confidence, JFloat 1)]"

definition forced_continue :: pydict where
  "forced_continue =
     [(k_sufficient, JBool False), (k_reason, JStr reason_too_few),
      (k_recommendation, JStr (py ''continue'')), (k_confidence, JFloat (9 / 10))]"

text \<open>The default result after both attempts failed; \<open>n\<close> is \<open>len(interactions)\<close>.\<close>

definition diagnostic_default :: "nat \<Rightarrow> pystr \<Rightarrow> pydict" where
  "diagnostic_default n analysis_result =
     [(k_sufficient, JBool (n \<ge> 5)), (k_reason, JStr reason_parse_failed),
      (k_recommendation, JStr (if n \<ge> 5 then py ''score'' else py ''continue'')),
      (k_confidence, JFloat (1 / 2)),
      (k_key_insights, JArr []), (k_missing_aspects, JArr []),
      (k_analyzed_interactions, JInt (int n)), (k_raw_analysis, JStr analysis_result)]"

definition diagnostic_required :: "pystr list" where
  "diagnostic_required = [k_sufficient, k_reason, k_recommendation, k_confidence]"

text \<open>
  The loop \<open>for attempt in range(2)\<close>. Only \<open>json.JSONDecodeError\<close> is caught: the
  \<open>TypeError\<close> of an item assignment to a decoded value that is not a dict escapes.
  After the assignment the value is a dict, so the membership tests cannot raise.
\<close>

fun diagnostic_attempts ::
  "client \<Rightarrow> loads \<Rightarrow> nat \<Rightarrow> nat list \<Rightarrow> pystr \<Rightarrow> world \<Rightarrow> (exn + pydict) \<times> world" where
  "diagnostic_attempts cl ld n [] analysis_result w =
     (Inr (diagnostic_default n analysis_result), w)"
| "diagnostic_attempts cl ld n (attempt # rest) previous w =
     (case call_llm cl 2 w of (analysis_result, w1) \<Rightarrow>
        (case ld (clean_json_response analysis_result) of
           None \<Rightarrow> diagnostic_attempts cl ld n rest analysis_result w1
         | Some result \<Rightarrow>
             (case set_item result k_analyzed_interactions (JInt (int n)) of
                Inl e \<Rightarrow> (Inl e, w1)
              | Inr d \<Rightarrow>
                  (if list_all (\<lambda>field. map_of d field \<noteq> None) diagnostic_required
                   then (Inr d, w1)
                   else diagnostic_attempts cl ld n rest analysis_result w1))))"

text \<open>A structural failure of one attempt, as the loop sees it: the answer does not
  decode, or it decodes to a dict that lacks a required field.\<close>

definition diagnostic_parse_fails :: "loads \<Rightarrow> pystr \<Rightarrow> bool" where
  "diagnostic_parse_fails ld answer \<longleftrightarrow>
     (case ld (clean_json_response answer) of
        None \<Rightarrow> True
      | Some (JObj d) \<Rightarrow> \<not> list_all (\<lambda>field. map_of d field \<noteq> None) diagnostic_required
      | Some other \<Rightarrow> False)"

text \<open>
  The system passes its \<open>guidance\<close> slot as \<open>guidance_info\<close>, which is \<open>None\<close> until a
  guidance has been generated; the prompt, built after the two forced branches, then
  raises \<open>AttributeError\<close> on \<open>guidance_info.get\<close>.
\<close>

definition analyze_interaction_sufficiency ::
  "client \<Rightarrow> loads \<Rightarrow> dimension_info \<Rightarrow> guidance option \<Rightarrow> interaction list \<Rightarrow>
   user_response list \<Rightarrow> world \<Rightarrow> (exn + pydict) \<times> world" where
  "analyze_interaction_sufficiency cl ld di guidance_info interactions user_responses w =
     (if length interactions \<ge> 5 then (Inr forced_score, w)
      else if length interactions < 3 then (Inr forced_continue, w)
      else (case guidance_info of
              None \<Rightarrow> (Inl AttributeError, w)
            | Some g \<Rightarrow> diagnostic_attempts cl ld (length interactions) [0, 1] [] w))"

subsection \<open>ScoringAgent.score_dimension\<close>

definition k_score :: pystr where
  "k_score = py ''score''"

definition k_level :: pystr where
  "k_level = py ''level''"

definition k_reasoning :: pystr where
  "k_reasoning = py ''reasoning''"

definition k_dimension :: pystr where
  "k_dimension = py ''dimension''"

definition k_dimension_id :: pystr where
  "k_dimension_id = py ''dimension_id''"

definition k_interactions_analyzed :: pystr where
  "k_interactions_analyzed = py ''interactions_analyzed''"

definition k_scorer :: pystr where
  "k_scorer = py ''scorer''"

definition scoring_required :: "pystr list" where
  "scoring_required = [k_score, k_level, k_reasoning, k_confidence]"

text \<open>The clamp: \<open>if score < 10: score = 10 elif score > 60: score = 60\<close>.\<close>

definition clamp_score :: "json \<Rightarrow> exn + json" where
  "clamp_score score =
     (case py_less score 10 of
        Inl e \<Rightarrow> Inl e
      | Inr True \<Rightarrow> Inr (JInt 10)
      | Inr False \<Rightarrow>
          (case py_greater score 60 of
             Inl e \<Rightarrow> Inl e
           | Inr True \<Rightarrow> Inr (JInt 60)
           | Inr False \<Rightarrow> Inr score))"

text \<open>The metadata stored by \<open>result.update\<close>, and the default result (score 43, level
  \<open>U+4E00 U+822C\<close>, confidence 0.3).\<close>

definition scoring_metadata :: "dimension_info \<Rightarrow> nat \<Rightarrow> (pystr \<times> json) list" where
  "scoring_metadata di n =
     [(k_dimension, JStr (dimension_name di)), (k_dimension_id, JInt (int (dimension_id di))),
      (k_interactions_analyzed, JInt (int n)), (k_scorer, JStr (py ''ScoringAgent''))]"

definition level_neutral :: pystr where
  "level_neutral = [19968, 33324]"

definition default_reasoning :: "nat \<Rightarrow> pystr" where
  "default_reasoning n =
     [74, 83, 79, 78, 35299, 26512, 22833, 36133, 65292, 22522, 20110, 20132, 20114, 36718,
      27425, 40] @ str_nat n @ [41, 32473, 20986, 40664, 35748, 35780, 20998]"

definition scoring_default :: "dimension_info \<Rightarrow> nat \<Rightarrow> pystr \<Rightarrow> pydict" where
  "scoring_default di n scoring_result =
     [(k_score, JInt 43), (k_level, JStr level_neutral),
      (k_reasoning, JStr (default_reasoning n)),
      (py ''evidence'', JArr [JStr [20132, 20114, 35760, 24405, 23436, 25972],
                              JStr [29992, 25143, 26377, 21442, 19982, 22238, 24212]]),
      (py ''strengths'', JArr [JStr [21442, 19982, 20102, 23436, 25972, 30340, 35780, 20272,
                                     36807, 31243]]),
      (py ''weaknesses'', JArr [JStr [22238, 24212, 36136, 37327, 38656, 35201, 25913, 21892]]),
      (k_confidence, JFloat (3 / 10)),
      (k_dimension, JStr (dimension_name di)), (k_dimension_id, JInt (int (dimension_id di))),
      (k_interactions_analyzed, JInt (int n)), (k_scorer, JStr (py ''ScoringAgent'')),
      (py ''raw_result'', JStr scoring_result)]"

text \<open>
  The loop \<open>for attempt in range(2)\<close>. Only \<open>json.JSONDecodeError\<close> is caught. The
  membership tests raise \<open>TypeError\<close> on a decoded number, boolean or \<open>None\<close>;
  \<open>result.get\<close> raises \<open>AttributeError\<close> on a decoded list or text that passed them;
  the comparisons of the clamp raise \<open>TypeError\<close> on a score that is not a number.
\<close>

fun scoring_attempts ::
  "client \<Rightarrow> loads \<Rightarrow> dimension_info \<Rightarrow> nat \<Rightarrow> nat list \<Rightarrow> pystr \<Rightarrow> world \<Rightarrow>
   (exn + pydict) \<times> world" where
  "scoring_attempts cl ld di n [] scoring_result w =
     (Inr (scoring_default di n scoring_result), w)"
| "scoring_attempts cl ld di n (attempt # rest) previous w =
     (case call_llm cl 2 w of (scoring_result, w1) \<Rightarrow>
        (case ld (clean_json_response scoring_result) of
           None \<Rightarrow> scoring_attempts cl ld di n rest scoring_result w1
         | Some result \<Rightarrow>
             (case all_in scoring_required result of
                Inl e \<Rightarrow> (Inl e, w1)
              | Inr False \<Rightarrow> scoring_attempts cl ld di n rest scoring_result w1
              | Inr True \<Rightarrow>
                  (case result of
                     JObj d \<Rightarrow>
                       (case clamp_score (dict_get d k_score (JInt 35)) of
                          Inl e \<Rightarrow> (Inl e, w1)
                        | Inr score \<Rightarrow>
                            (Inr (dict_update (scoring_metadata di n)
                                    (AList.update k_score score d)), w1))
                   | _ \<Rightarrow> (Inl AttributeError, w1)))))"

text \<open>The prompt is built first and raises \<open>AttributeError\<close> on a \<open>guidance_info\<close>
  that is \<open>None\<close>; the diagnostic analysis only feeds the prompt.\<close>

definition score_dimension ::
  "client \<Rightarrow> loads \<Rightarrow> dimension_info \<Rightarrow> guidance option \<Rightarrow> interaction list \<Rightarrow>
   user_response list \<Rightarrow> pydict \<Rightarrow> world \<Rightarrow> (exn + pydict) \<times> world" where
  "score_dimension cl ld di guidance_info interactions user_responses diagnostic_analysis w =
     (case guidance_info of
        None \<Rightarrow> (Inl AttributeError, w)
      | Some g \<Rightarrow> scoring_attempts cl ld di (length interactions) [0, 1] [] w)"

section \<open>The assessment system (cctdi_system.py)\<close>

subsection \<open>ConversationCSVManager: the transcript of one session\<close>

text \<open>
  The rows appended to the session's own CSV file, by kind: the header written by the
  constructor, a question or a response (dimension id and name, round, mode, cleaned
  content), a dimension score (dimension id and name, score, level, cleaned reasoning) and
  the final summary (total, average, overall level, number of dimensions).
\<close>

datatype csv_row =
    HeaderRow
  | QuestionRow nat pystr nat pystr pystr
  | ResponseRow nat pystr nat pystr pystr
  | ScoreRow nat pystr json json pystr
  | SummaryRow pynum rat pystr nat

text \<open>\<open>' '.join(s.split())\<close>: the runs of white space become single spaces and the
  ends are trimmed. \<open>split_words\<close> carries the word being read.\<close>

fun split_words :: "pystr \<Rightarrow> pystr \<Rightarrow> pystr list" where
  "split_words word [] = (if word = [] then [] else [word])"
| "split_words word (c # cs) =
     (if is_space c
      then (if word = [] then split_words [] cs else word # split_words [] cs)
      else split_words (word @ [c]) cs)"

fun join_spaces :: "pystr list \<Rightarrow> pystr" where
  "join_spaces [] = []"
| "join_spaces [x] = x"
| "join_spaces (x # y # ys) = x @ [32] @ join_spaces (y # ys)"

text \<open>\<open>_clean_content\<close> on a \<open>str\<close>, and on any value: a false value gives the empty
  text, any other value that is not a \<open>str\<close> has no \<open>replace\<close>.\<close>

definition clean_content :: "pystr \<Rightarrow> pystr" where
  "clean_content s =
     (if s = [] then []
      else join_spaces (split_words [] (map (\<lambda>c. if c = 10 \<or> c = 13 then 32 else c) s)))"

definition clean_content_value :: "json \<Rightarrow> exn + pystr" where
  "clean_content_value v =
     (if \<not> truthy v then Inr []
      else (case v of JStr s \<Rightarrow> Inr (clean_content s) | _ \<Rightarrow> Inl AttributeError))"

subsection \<open>CCTDIAssessmentSystem: the state of one session\<close>

datatype status = Initialized | Running | Completed

text \<open>
  One record for the object and the agents it owns: the director's
  \<open>current_dimension\<close> and \<open>dimension_progress\<close>, the navigator's mode, history and
  context (unset until \<open>set_dimension_context\<close>), the user, \<open>system_state\<close>, the
  transcript and \<open>current_work_state\<close>.
\<close>

record system =
  director_current_dimension :: nat
  dimension_progress :: "(nat \<times> json) list"
  nav_current_mode :: pystr
  nav_interaction_history :: "interaction list"
  nav_context :: "(dimension_info \<times> guidance) option"
  user_id :: "pystr option"
  user_name :: "pystr option"
  status :: status
  current_dimension :: "nat option"
  interactions :: "interaction list"
  user_responses :: "user_response list"
  dimension_scores :: "(nat \<times> pydict) list"
  session_id :: pystr
  transcript :: "csv_row list"
  ws_dimension_info :: "dimension_info option"
  ws_guidance :: "guidance option"
  ws_interaction_count :: nat
  diagnostic_results :: "pydict list"
  ready_for_scoring :: bool

text \<open>What the operations return to the caller.\<close>

datatype response =
    Started pystr pystr pystr pystr
  | ErrorReply pystr
  | ContinueReply pystr pystr nat pystr
  | DimensionCompleted "json \<times> json \<times> json" "pystr \<times> pystr \<times> pystr" nat
  | CompletedReply final_report

text \<open>A user id or name counts when it is neither \<open>None\<close> nor empty.\<close>

definition given :: "pystr option \<Rightarrow> bool" where
  "given x \<longleftrightarrow> (case x of None \<Rightarrow> False | Some s \<Rightarrow> s \<noteq> [])"

text \<open>\<open>__init__\<close> with \<open>_generate_session_id\<close>; \<open>stamp\<close> is the clock reading
  \<open>strftime('%Y%m%d_%H%M%S')\<close> used when the user is not given.\<close>

definition init_system :: "pystr option \<Rightarrow> pystr option \<Rightarrow> pystr \<Rightarrow> system" where
  "init_system uid uname stamp =
     \<lparr>director_current_dimension = 1, dimension_progress = [],
      nav_current_mode = mode_normal, nav_interaction_history = [], nav_context = None,
      user_id = uid, user_name = uname,
      status = Initialized, current_dimension = None, interactions = [], user_responses = [],
      dimension_scores = [],
      session_id = (if given uid \<and> given uname then the uid @ the uname
                    else py ''cctdi_session_'' @ stamp),
      transcript = [HeaderRow],
      ws_dimension_info = None, ws_guidance = None, ws_interaction_count = 0,
      diagnostic_results = [], ready_for_scoring = False\<rparr>"

subsection \<open>Asking a question\<close>

text \<open>
  \<open>AdaptiveNavigatorAgent.generate_question\<close>: the mode is chosen and stored, the
  prompt reads the context (\<open>AttributeError\<close> when it was never set), the model is
  called with the default three tries and the interaction is appended to the history.
\<close>

definition generate_question ::
  "client \<Rightarrow> user_response list \<Rightarrow> nat \<Rightarrow> system \<Rightarrow> world \<Rightarrow> (exn + interaction) \<times> system \<times> world" where
  "generate_question cl responses count s w =
     (let s1 = s\<lparr>nav_current_mode := select_interaction_mode responses count\<rparr> in
      case nav_context s1 of
        None \<Rightarrow> (Inl AttributeError, s1, w)
      | Some (di, g) \<Rightarrow>
          (case call_llm cl 3 w of (q, w1) \<Rightarrow>
             (let interaction_data =
                    \<lparr>interaction_count = count, mode = nav_current_mode s1, question = q,
                     dimension = dimension_name di\<rparr>
              in (Inr interaction_data,
                  s1\<lparr>nav_interaction_history := nav_interaction_history s1 @ [interaction_data]\<rparr>,
                  w1))))"


subsection \<open>Completing the assessment\<close>

text \<open>The overall levels \<open>U+4F18 U+79C0\<close>, \<open>U+826F U+597D\<close>, \<open>U+4E00 U+822C\<close>,
  \<open>U+8F83 U+5DEE\<close> and \<open>U+6781 U+5DEE\<close>, from the highest to the lowest.\<close>

definition level_excellent :: pystr where
  "level_excellent = [20248, 31168]"

definition level_good :: pystr where
  "level_good = [33391, 22909]"

definition level_average :: pystr where
  "level_average = [19968, 33324]"

definition level_poor :: pystr where
  "level_poor = [36739, 24046]"

definition level_very_poor :: pystr where
  "level_very_poor = [26497, 24046]"

text \<open>The chain \<open>if total_score >= 350 ... elif ... else\<close> of \<open>_complete_assessment\<close>.\<close>

definition overall_level_of :: "pynum \<Rightarrow> pystr" where
  "overall_level_of total_sum =
     (if num_val total_sum \<ge> 350 then level_excellent
      else if num_val total_sum \<ge> 280 then level_good
      else if num_val total_sum \<ge> 210 then level_average
      else if num_val total_sum \<ge> 140 then level_poor
      else level_very_poor)"

text \<open>\<open>sum(result["score"] for result in dimension_scores.values())\<close>: a result without
  score raises \<open>KeyError\<close>, a score that is not a number raises \<open>TypeError\<close>.\<close>

fun sum_scores :: "pynum \<Rightarrow> pydict list \<Rightarrow> exn + pynum" where
  "sum_scores acc [] = Inr acc"
| "sum_scores acc (r # rs) =
     (case get_item r k_score of
        Inl e \<Rightarrow> Inl e
      | Inr v \<Rightarrow>
          (case as_num v of
             None \<Rightarrow> Inl TypeError
           | Some n \<Rightarrow> sum_scores (py_add acc n) rs))"

text \<open>\<open>round(x, 1)\<close>: to the nearest tenth, a tie going to the even one.\<close>

definition round_half_even :: "rat \<Rightarrow> int" where
  "round_half_even x =
     (let f = \<lfloor>x\<rfloor>; d = x - of_int f
      in if d < 1 / 2 then f else if 1 / 2 < d then f + 1 else if even f then f else f + 1)"

definition py_round1 :: "rat \<Rightarrow> rat" where
  "py_round1 x = of_int (round_half_even (x * 10)) / 10"

text \<open>
  \<open>_save_user_score_summary\<close>. Nothing is written unless user id and name are given.
  The test for the file and the append are both inside \<open>with _USER_SCORES_LOCK\<close>, so no
  other session's write comes between them: the whole is one step on the ledger.
\<close>

definition ledger_scores :: "(nat \<times> pydict) list \<Rightarrow> json list" where
  "ledger_scores scores =
     map (\<lambda>dim_id. case map_of scores dim_id of
                       None \<Rightarrow> JInt 0
                     | Some r \<Rightarrow> dict_get r k_score (JInt 0)) [1 ..< 8]"

definition save_user_score_summary :: "system \<Rightarrow> pynum \<Rightarrow> world \<Rightarrow> world" where
  "save_user_score_summary s total_sum w =
     (if \<not> given (user_id s) \<or> \<not> given (user_name s) then w
      else (let row_data = LedgerRow (the (user_id s)) (the (user_name s))
                             (ledger_scores (dimension_scores s)) total_sum;
                file_exists = (ledger w \<noteq> None);
                old = (case ledger w of None \<Rightarrow> [] | Some ls \<Rightarrow> ls)
            in w\<lparr>ledger := Some (old @ (if \<not> file_exists then [LedgerHeader] else []) @
                                  [row_data])\<rparr>))"

text \<open>\<open>_complete_assessment\<close>, with \<open>_save_assessment_report\<close> (the report file is
  written anew under the session id) and \<open>save_final_summary\<close>.\<close>

definition complete_assessment ::
  "pydict \<Rightarrow> system \<Rightarrow> world \<Rightarrow> (exn + response) \<times> system \<times> world" where
  "complete_assessment final_score_result s w =
     (let s1 = s\<lparr>status := Completed\<rparr> in
      case sum_scores (PInt 0) (map snd (dimension_scores s1)) of
        Inl e \<Rightarrow> (Inl e, s1, w)
      | Inr total_sum \<Rightarrow>
          (let average = num_val total_sum / 7;
               level = overall_level_of total_sum
           in case get_item final_score_result k_dimension of
                Inl e \<Rightarrow> (Inl e, s1, w)
              | Inr name \<Rightarrow>
                 (case get_item final_score_result k_score of
                    Inl e \<Rightarrow> (Inl e, s1, w)
                  | Inr score \<Rightarrow>
                     (case get_item final_score_result k_level of
                        Inl e \<Rightarrow> (Inl e, s1, w)
                      | Inr lev \<Rightarrow>
                         (let report =
                                \<lparr>report_session_id = session_id s1, total_score = total_sum,
                                 average_score = py_round1 average, overall_level = level,
                                 report_dimension_scores = dimension_scores s1,
                                 final_dimension_result = (name, score, lev)\<rparr>;
                              w1 = w\<lparr>reports := AList.update (session_id s1) report (reports w)\<rparr>;
                              s2 = s1\<lparr>transcript := transcript s1 @
                                      [SummaryRow total_sum average level 7]\<rparr>;
                              w2 = save_user_score_summary s2 total_sum w1
                          in (Inr (CompletedReply report), s2, w2))))))"

subsection \<open>Scoring a dimension and moving on\<close>

text \<open>\<open>ScenarioDirectorAgent.advance_to_next_dimension\<close>: the score is recorded; below
  dimension 7 the director moves on and reports the new dimension.\<close>

datatype advance_result = Advanced nat dimension_info | AllCompleted

definition director_advance :: "json \<Rightarrow> system \<Rightarrow> (exn + advance_result) \<times> system" where
  "director_advance current_score s =
     (let s1 = s\<lparr>dimension_progress :=
                   AList.update (director_current_dimension s) current_score
                     (dimension_progress s)\<rparr> in
      if director_current_dimension s1 < 7 then
        (let s2 = s1\<lparr>director_current_dimension := director_current_dimension s1 + 1\<rparr> in
         case get_current_dimension_info (director_current_dimension s2) of
           Inl e \<Rightarrow> (Inl e, s2)
         | Inr di \<Rightarrow> (Inr (Advanced (director_current_dimension s2) di), s2))
      else (Inr AllCompleted, s1))"

text \<open>\<open>_advance_to_next_dimension\<close>.\<close>

definition advance_to_next_dimension ::
  "client \<Rightarrow> nat \<Rightarrow> dimension_info \<Rightarrow> pydict \<Rightarrow> system \<Rightarrow> world \<Rightarrow>
   (exn + response) \<times> system \<times> world" where
  "advance_to_next_dimension cl cur di previous_score_result s w =
     (let s1 = s\<lparr>current_dimension := Some cur,
                  ws_dimension_info := Some di, ws_guidance := None, ws_interaction_count := 0,
                  diagnostic_results := [], ready_for_scoring := False,
                  interactions := [], user_responses := []\<rparr> in
      case generate_dimension_guidance cl (director_current_dimension s1) w of
        (Inl e, w1) \<Rightarrow> (Inl e, s1, w1)
      | (Inr g, w1) \<Rightarrow>
          (let s2 = s1\<lparr>ws_guidance := Some g, nav_context := Some (di, g)\<rparr> in
           case generate_question cl [] 0 s2 w1 of
             (Inl e, s3, w2) \<Rightarrow> (Inl e, s3, w2)
           | (Inr first_question, s3, w2) \<Rightarrow>
               (let s4 = s3\<lparr>interactions := interactions s3 @ [first_question],
                             ws_interaction_count := 1\<rparr>;
                    s5 = s4\<lparr>transcript := transcript s4 @
                            [QuestionRow (dimension_id di) (guidance_dimension_name g) 1
                               (mode first_question) (clean_content (question first_question))]\<rparr>
                in case get_item previous_score_result k_dimension of
                     Inl e \<Rightarrow> (Inl e, s5, w2)
                   | Inr name \<Rightarrow>
                      (case get_item previous_score_result k_score of
                         Inl e \<Rightarrow> (Inl e, s5, w2)
                       | Inr score \<Rightarrow>
                          (case get_item previous_score_result k_level of
                             Inl e \<Rightarrow> (Inl e, s5, w2)
                           | Inr lev \<Rightarrow>
                              (Inr (DimensionCompleted (name, score, lev)
                                      (guidance_dimension_name g, guidance_text g,
                                       question first_question) cur), s5, w2))))))"

text \<open>\<open>_score_current_dimension\<close>. The first \<open>print\<close> subscripts the dimension info
  (\<open>TypeError\<close> on \<open>None\<close>).\<close>

definition score_current_dimension ::
  "client \<Rightarrow> loads \<Rightarrow> pydict \<Rightarrow> system \<Rightarrow> world \<Rightarrow> (exn + response) \<times> system \<times> world" where
  "score_current_dimension cl ld diagnostic_result s w =
     (case ws_dimension_info s of
        None \<Rightarrow> (Inl TypeError, s, w)
      | Some di \<Rightarrow>
         (case score_dimension cl ld di (ws_guidance s) (interactions s) (user_responses s)
                 diagnostic_result w of
            (Inl e, w1) \<Rightarrow> (Inl e, s, w1)
          | (Inr scoring_result, w1) \<Rightarrow>
             (let s1 = s\<lparr>dimension_scores :=
                           AList.update (dimension_id di) scoring_result (dimension_scores s)\<rparr>
              in case get_item scoring_result k_score of
                   Inl e \<Rightarrow> (Inl e, s1, w1)
                 | Inr score \<Rightarrow>
                    (case get_item scoring_result k_level of
                       Inl e \<Rightarrow> (Inl e, s1, w1)
                     | Inr lev \<Rightarrow>
                        (case clean_content_value (dict_get scoring_result k_reasoning (JStr [])) of
                           Inl e \<Rightarrow> (Inl e, s1, w1)
                         | Inr reasoning \<Rightarrow>
                            (let s2 = s1\<lparr>transcript := transcript s1 @
                                         [ScoreRow (dimension_id di) (dimension_name di) score lev
                                            reasoning]\<rparr>
                             in case director_advance score s2 of
                                  (Inl e, s3) \<Rightarrow> (Inl e, s3, w1)
                                | (Inr AllCompleted, s3) \<Rightarrow>
                                    complete_assessment scoring_result s3 w1
                                | (Inr (Advanced cur next_di), s3) \<Rightarrow>
                                    advance_to_next_dimension cl cur next_di scoring_result
                                      s3 w1))))))"

subsection \<open>Submitting a response\<close>

text \<open>The error text \<open>U+8BC4 U+4F30 U+672A U+5F00 U+59CB U+6216 U+5DF2 U+7ED3 U+675F\<close>.\<close>

definition err_not_running :: pystr where
  "err_not_running = [35780, 20272, 26410, 24320, 22987, 25110, 24050, 32467, 26463]"

text \<open>The tail of \<open>process_user_response\<close>, reached whenever scoring is not due: the
  next question is generated, recorded and returned.\<close>

definition ask_next_question :: "client \<Rightarrow> system \<Rightarrow> world \<Rightarrow> (exn + response) \<times> system \<times> world" where
  "ask_next_question cl s w =
     (case generate_question cl (user_responses s) (ws_interaction_count s) s w of
        (Inl e, s1, w1) \<Rightarrow> (Inl e, s1, w1)
      | (Inr next_question, s1, w1) \<Rightarrow>
          (let s2 = s1\<lparr>interactions := interactions s1 @ [next_question],
                        ws_interaction_count := ws_interaction_count s1 + 1\<rparr> in
           case ws_dimension_info s2 of
             None \<Rightarrow> (Inl TypeError, s2, w1)
           | Some di \<Rightarrow>
               (let s3 = s2\<lparr>transcript := transcript s2 @
                            [QuestionRow (dimension_id di) (dimension_name di)
                               (ws_interaction_count s2) (mode next_question)
                               (clean_content (question next_question))]\<rparr>
                in (Inr (ContinueReply (question next_question) (mode next_question)
                           (ws_interaction_count s3) (dimension_name di)), s3, w1))))"

text \<open>The \<open>print\<close> of the diagnosis reads \<open>recommendation\<close> and formats \<open>confidence\<close>
  with \<open>.2f\<close>; the exception it may raise is what matters.\<close>

definition print_diagnosis :: "pydict \<Rightarrow> exn option" where
  "print_diagnosis d =
     (case get_item d k_recommendation of
        Inl e \<Rightarrow> Some e
      | Inr r \<Rightarrow> (case get_item d k_confidence of Inl e \<Rightarrow> Some e | Inr c \<Rightarrow> format_2f c))"

text \<open>\<open>diagnostic_result["sufficient"] and diagnostic_result["recommendation"] == "score"\<close>:
  the recommendation is read only when \<open>sufficient\<close> is true.\<close>

definition wants_score :: "pydict \<Rightarrow> exn + bool" where
  "wants_score d =
     (case get_item d k_sufficient of
        Inl e \<Rightarrow> Inl e
      | Inr v \<Rightarrow>
          (if truthy v
           then (case get_item d k_recommendation of
                   Inl e \<Rightarrow> Inl e
                 | Inr r \<Rightarrow> Inr (r = JStr (py ''score'')))
           else Inr False))"

text \<open>\<open>process_user_response\<close>.\<close>

definition process_user_response ::
  "client \<Rightarrow> loads \<Rightarrow> pystr \<Rightarrow> system \<Rightarrow> world \<Rightarrow> (exn + response) \<times> system \<times> world" where
  "process_user_response cl ld user_input s w =
     (if status s \<noteq> Running then (Inr (ErrorReply err_not_running), s, w)
      else
        (let s1 = s\<lparr>user_responses := user_responses s @
                       [\<lparr>content = user_input, interaction_id = length (user_responses s)\<rparr>]\<rparr>;
             current_round = length (user_responses s1)
         in if interactions s1 = [] then (Inl IndexError, s1, w)
            else
              (case ws_dimension_info s1 of
                 None \<Rightarrow> (Inl TypeError, s1, w)
               | Some di \<Rightarrow>
                  (let s2 = s1\<lparr>transcript := transcript s1 @
                               [ResponseRow (dimension_id di) (dimension_name di) current_round
                                  (mode (last (interactions s1))) (clean_content user_input)]\<rparr>
                   in if length (user_responses s2) \<ge> 3 then
                        (case analyze_interaction_sufficiency cl ld di (ws_guidance s2)
                                (interactions s2) (user_responses s2) w of
                           (Inl e, w1) \<Rightarrow> (Inl e, s2, w1)
                         | (Inr diagnostic_result, w1) \<Rightarrow>
                            (let s3 = s2\<lparr>diagnostic_results :=
                                          diagnostic_results s2 @ [diagnostic_result]\<rparr>
                             in case print_diagnosis diagnostic_result of
                                  Some e \<Rightarrow> (Inl e, s3, w1)
                                | None \<Rightarrow>
                                   (case wants_score diagnostic_result of
                                      Inl e \<Rightarrow> (Inl e, s3, w1)
                                    | Inr True \<Rightarrow>
                                        score_current_dimension cl ld diagnostic_result s3 w1
                                    | Inr False \<Rightarrow> ask_next_question cl s3 w1)))
                      else ask_next_question cl s2 w))))"

subsection \<open>The driver loop\<close>







section \<open>Concrete services and sessions\<close>

text \<open>A model service that always fails, one that fails once and then answers, and one
  that always gives the same answer; a decoder that rejects every text and one given by a
  table; the world before anything happened.\<close>

definition failing_client :: client where
  "failing_client n = Inl (py ''timeout'')"


definition constant_client :: "pystr \<Rightarrow> client" where
  "constant_client answer n = Inr answer"

definition decode_nothing :: loads where
  "decode_nothing t = None"

definition decode_table :: "(pystr \<times> json) list \<Rightarrow> loads" where
  "decode_table table t = map_of table t"

definition empty_world :: world where
  "empty_world = \<lparr>calls = 0, slept = [], ledger = None, reports = []\<rparr>"

text \<open>Interactions and a dimension to judge.\<close>

definition sample_interaction :: interaction where
  "sample_interaction =
     \<lparr>interaction_count = 0, mode = mode_normal, question = py ''why?'', dimension = []\<rparr>"

definition sample_dimension :: dimension_info where
  "sample_dimension =
     \<lparr>dimension_id = 1, dimension_name = [23547, 25214, 30495, 29702], questions = [1 ..< 11],
      description = []\<rparr>"

definition sample_guidance :: guidance where
  "sample_guidance =
     \<lparr>guidance_dimension_id = 1, guidance_dimension_name = [23547, 25214, 30495, 29702],
      guidance_text = py ''look for evidence'', questions_range = [1 ..< 11]\<rparr>"

text \<open>An answer of the model whose score is a text, as \<open>json.loads\<close> decodes it.\<close>

definition quoted_score_answer :: pystr where
  \<open>quoted_score_answer =
     py ''{"score": "45", "level": "B", "reasoning": "clear", "confidence": 0.8}''\<close>

definition quoted_score_value :: json where
  "quoted_score_value =
     JObj [(k_score, JStr (py ''45'')), (k_level, JStr (py ''B'')),
           (k_reasoning, JStr (py ''clear'')), (k_confidence, JFloat (8 / 10))]"

text \<open>What a field of a result holds, when there is a result.\<close>

definition result_field :: "exn + pydict \<Rightarrow> pystr \<Rightarrow> exn + json" where
  "result_field r k = (case r of Inl e \<Rightarrow> Inl e | Inr d \<Rightarrow> get_item d k)"

text \<open>The score of a result when it is an \<open>int\<close>, and the results whose scores all are.\<close>

definition int_score :: "pydict \<Rightarrow> int" where
  "int_score r = (case map_of r k_score of Some (JInt n) \<Rightarrow> n | _ \<Rightarrow> 0)"

definition integer_scores :: "(nat \<times> pydict) list \<Rightarrow> bool" where
  "integer_scores scores \<longleftrightarrow>
     list_all (\<lambda>r. case map_of r k_score of Some (JInt n) \<Rightarrow> True | _ \<Rightarrow> False)
       (map snd scores)"

text \<open>The report of a reply, when it carries one.\<close>

definition reply_report :: "exn + response \<Rightarrow> final_report option" where
  "reply_report r = (case r of Inr (CompletedReply rep) \<Rightarrow> Some rep | _ \<Rightarrow> None)"

text \<open>A session at the end of its seventh dimension: six dimensions scored 43, the last
  one 42, for a user who is given and for one who is not.\<close>

definition sample_result :: "int \<Rightarrow> pydict" where
  "sample_result n =
     [(k_score, JInt n), (k_level, JStr level_neutral), (k_reasoning, JStr (py ''steady'')),
      (k_confidence, JFloat (7 / 10)), (k_dimension, JStr (py ''dimension''))]"

definition sample_scores :: "(nat \<times> pydict) list" where
  "sample_scores =
     [(1, sample_result 43), (2, sample_result 43), (3, sample_result 43),
      (4, sample_result 43), (5, sample_result 43), (6, sample_result 43),
      (7, sample_result 42)]"

definition finishing_session :: "pystr option \<Rightarrow> pystr option \<Rightarrow> system" where
  "finishing_session uid uname =
     (init_system uid uname (py ''20250101_000000''))
       \<lparr>status := Running, dimension_scores := sample_scores\<rparr>"

definition sample_report :: "pystr option \<Rightarrow> pystr option \<Rightarrow> final_report" where
  "sample_report uid uname =
     \<lparr>report_session_id = session_id (finishing_session uid uname), total_score = PInt 300,
      average_score = 429 / 10, overall_level = level_good,
      report_dimension_scores = sample_scores,
      final_dimension_result = (JStr (py ''dimension''), JInt 42, JStr level_neutral)\<rparr>"


section \<open>Invariants of a session\<close>






section \<open>Properties of the response normalizer\<close>

lemma strip_where_ends:
  "strip_where p s = [] \<or> (\<not> p (hd (strip_where p s)) \<and> \<not> p (last (strip_where p s)))"
proof (cases "strip_where p s = []")
  case True then show ?thesis by simp
next
  case False
  let ?a = "dropWhile p s"
  let ?b = "dropWhile p (rev ?a)"
  have b: "?b \<noteq> []" using False by (simp add: strip_where_def)
  then have hb: "\<not> p (hd ?b)" by (metis hd_dropWhile)
  have l: "last (strip_where p s) = hd ?b" using b by (simp add: strip_where_def last_rev)
  have a: "?a \<noteq> []"
  proof
    assume "?a = []"
    then have "?b = []" by (metis dropWhile.simps(1) rev.simps(1))
    with b show False by simp
  qed
  then have ha: "\<not> p (hd ?a)" by (metis hd_dropWhile)
  have "last ?b = last (rev ?a)" using b
    by (metis append_Nil2 last_appendR takeWhile_dropWhile_id)
  then have "hd (strip_where p s) = hd ?a" using a b
    by (simp add: strip_where_def hd_rev last_rev)
  with ha hb l show ?thesis by simp
qed

lemma strip_where_id:
  "s = [] \<or> (\<not> p (hd s) \<and> \<not> p (last s)) \<Longrightarrow> strip_where p s = s"
proof (cases s)
  case Nil then show ?thesis by (simp add: strip_where_def)
next
  case (Cons a t)
  assume "s = [] \<or> (\<not> p (hd s) \<and> \<not> p (last s))"
  with Cons have h: "\<not> p a" and l: "\<not> p (last s)" by auto
  have 1: "dropWhile p s = s" using Cons h by simp
  have "rev s \<noteq> []" using Cons by simp
  moreover have "hd (rev s) = last s" using Cons by (simp add: hd_rev)
  ultimately have "dropWhile p (rev s) = rev s" using l by (simp add: dropWhile_eq_self_iff)
  with 1 show ?thesis by (simp add: strip_where_def)
qed

lemma fence_then_space_last:
  "fence_then_space t \<Longrightarrow> t \<noteq> [] \<and> (last t = backtick \<or> is_space (last t))"
proof -
  assume f: "fence_then_space t"
  then have t3: "take 3 t = fence" and ws: "list_all is_space (drop 3 t)"
    by (simp_all add: fence_then_space_def)
  from t3 have ne: "t \<noteq> []" by (auto simp: fence_def)
  have split: "t = fence @ drop 3 t" using t3 by (metis append_take_drop_id)
  show ?thesis
  proof (cases "drop 3 t = []")
    case True
    with split have "t = fence" by simp
    then show ?thesis by (simp add: fence_def)
  next
    case False
    then have "last t = last (drop 3 t)" using split by (metis last_appendR)
    moreover have "is_space (last (drop 3 t))" using ws False
      by (metis last_in_set list_all_iff)
    ultimately show ?thesis using ne by simp
  qed
qed

lemma close_fence_here_last:
  "close_fence_here s \<Longrightarrow> last s = backtick \<or> is_space (last s)"
proof (cases s)
  case Nil
  assume "close_fence_here s" with Nil show ?thesis by simp
next
  case (Cons c cs)
  assume "close_fence_here s"
  with Cons show ?thesis
    using fence_then_space_last [of cs] fence_then_space_last [of "c # cs"]
    by (auto split: if_splits)
qed

lemma strip_close_fence_id:
  "s = [] \<or> (last s \<noteq> backtick \<and> \<not> is_space (last s)) \<Longrightarrow> strip_close_fence s = s"
proof (induction s)
  case Nil then show ?case by simp
next
  case (Cons c cs)
  then have l: "last (c # cs) \<noteq> backtick" "\<not> is_space (last (c # cs))" by auto
  then have n: "\<not> close_fence_here (c # cs)" using close_fence_here_last by blast
  have "cs = [] \<or> (last cs \<noteq> backtick \<and> \<not> is_space (last cs))" using l by auto
  then have "strip_close_fence cs = cs" by (rule Cons.IH)
  with n show ?case by simp
qed

lemma strip_open_fence_id:
  "\<not> starts_with_backtick s \<Longrightarrow> strip_open_fence s = s"
  by (cases s) (auto simp: strip_open_fence_def starts_with_backtick_def fence_def)


lemma starts_with_backtick_iff:
  "starts_with_backtick s \<longleftrightarrow> s \<noteq> [] \<and> hd s = backtick"
  by (cases s) (simp_all add: starts_with_backtick_def)

lemma ends_with_backtick_iff:
  "ends_with_backtick s \<longleftrightarrow> s \<noteq> [] \<and> last s = backtick"
  by (simp add: ends_with_backtick_def starts_with_backtick_iff hd_rev)

lemma clean_json_response_stripped:
  "clean_json_response x = [] \<or>
   (\<not> is_space (hd (clean_json_response x)) \<and> \<not> is_space (last (clean_json_response x)))"
  using strip_where_ends [of is_space]
  by (auto simp: clean_json_response_def py_strip_def Let_def)

text \<open>
  Claim C8, as the code has it. The normalizer is not idempotent on every text: white space
  between backticks shields the inner backticks from \<open>strip('`')\<close> on the first pass
  and no longer on the second. It is idempotent on every text whose normalized form
  neither begins nor ends with a backtick: a second pass then leaves that form unchanged.
\<close>

theorem clean_json_response_idempotent_without_outer_backticks:
  assumes "\<not> starts_with_backtick (clean_json_response x)"
      and "\<not> ends_with_backtick (clean_json_response x)"
  shows "clean_json_response (clean_json_response x) = clean_json_response x"
proof (cases "clean_json_response x = []")
  case True
  then show ?thesis by (simp add: clean_json_response_def)
next
  case False
  let ?c = "clean_json_response x"
  from False clean_json_response_stripped [of x]
  have sp: "\<not> is_space (hd ?c)" "\<not> is_space (last ?c)" by auto
  from assms False have bt: "hd ?c \<noteq> backtick" "last ?c \<noteq> backtick"
    by (simp_all add: starts_with_backtick_iff ends_with_backtick_iff)
  have 1: "py_strip ?c = ?c"
    unfolding py_strip_def using sp by (intro strip_where_id) simp
  have 2: "strip_open_fence ?c = ?c"
    using assms(1) by (rule strip_open_fence_id)
  have 3: "strip_close_fence ?c = ?c"
    using bt sp by (intro strip_close_fence_id) simp
  have 4: "strip_backticks ?c = ?c"
    unfolding strip_backticks_def using bt by (intro strip_where_id) simp
  show ?thesis
    using False 1 2 3 4 by (simp add: clean_json_response_def [of ?c] Let_def)
qed

lemmas normalizer_eval =
  clean_json_response_def py_strip_def strip_backticks_def strip_where_def py_def
  starts_with_backtick_def ends_with_backtick_def strip_open_fence_def fence_def
  backtick_def newline_def is_space_def fence_then_space_def

text \<open>The fenced answer \<open>```json {} ```\<close> normalizes to \<open>{}\<close>, and stays there.\<close>

theorem clean_json_response_idempotent_witness:
  "\<not> starts_with_backtick (clean_json_response (py ''```json {} ```'')) \<and>
   \<not> ends_with_backtick (clean_json_response (py ''```json {} ```'')) \<and>
   clean_json_response (clean_json_response (py ''```json {} ```'')) =
     clean_json_response (py ''```json {} ```'')"
proof -
  have a: "\<not> starts_with_backtick (clean_json_response (py ''```json {} ```''))"
    by (simp add: normalizer_eval)
  have b: "\<not> ends_with_backtick (clean_json_response (py ''```json {} ```''))"
    by (simp add: normalizer_eval)
  show ?thesis
    using a b clean_json_response_idempotent_without_outer_backticks [OF a b] by simp
qed

text \<open>
  The text backtick, space, backtick, \<open>x\<close> normalizes to backtick, \<open>x\<close>, which
  normalizes to \<open>x\<close>: the claim as stated fails there.
\<close>

theorem clean_json_response_not_idempotent:
  "clean_json_response (clean_json_response [96, 32, 96, 120]) \<noteq>
   clean_json_response [96, 32, 96, 120]"
  by (simp add: normalizer_eval)

section \<open>Properties of the model call adapter\<close>





lemma llm_attempts_calls_mono:
  "calls w \<le> calls (snd (llm_attempts cl m as last_error w))"
proof (induction as arbitrary: w last_error)
  case Nil
  then show ?case by simp
next
  case (Cons a as)
  show ?case
  proof (cases "cl (calls w)")
    case (Inr c)
    then show ?thesis by simp
  next
    case (Inl e)
    let ?w1 = "w\<lparr>calls := Suc (calls w)\<rparr>"
    let ?w2 = "if int a < m - 1 then ?w1\<lparr>slept := slept ?w1 @ [2 ^ a]\<rparr> else ?w1"
    have "calls ?w2 \<le> calls (snd (llm_attempts cl m as (Some e) ?w2))" by (rule Cons.IH)
    moreover have "calls ?w2 = Suc (calls w)" by simp
    ultimately have "Suc (calls w) \<le> calls (snd (llm_attempts cl m as (Some e) ?w2))" by simp
    then show ?thesis using Inl by (simp add: Let_def)
  qed
qed

lemma llm_attempts_calls_strict:
  "as \<noteq> [] \<Longrightarrow> calls w < calls (snd (llm_attempts cl m as last_error w))"
proof (cases as)
  case Nil
  assume "as \<noteq> []" with Nil show ?thesis by simp
next
  case (Cons a rest)
  show ?thesis
  proof (cases "cl (calls w)")
    case (Inr c)
    then show ?thesis using Cons by simp
  next
    case (Inl e)
    let ?w1 = "w\<lparr>calls := Suc (calls w)\<rparr>"
    let ?w2 = "if int a < m - 1 then ?w1\<lparr>slept := slept ?w1 @ [2 ^ a]\<rparr> else ?w1"
    have "calls ?w2 \<le> calls (snd (llm_attempts cl m rest (Some e) ?w2))"
      by (rule llm_attempts_calls_mono)
    moreover have "calls ?w2 = Suc (calls w)" by simp
    ultimately have "Suc (calls w) \<le> calls (snd (llm_attempts cl m rest (Some e) ?w2))" by simp
    then show ?thesis using Inl Cons by (simp add: Let_def)
  qed
qed

lemma call_llm_calls:
  "0 < m \<Longrightarrow> calls w < calls (snd (call_llm cl m w))"
  unfolding call_llm_def by (rule llm_attempts_calls_strict) simp

lemma call_llm_failing_2:
  "call_llm failing_client 2 w =
     (error_msg 2 (Some (py ''timeout'')), w\<lparr>calls := Suc (Suc (calls w)), slept := slept w @ [1]\<rparr>)"
  by (simp add: call_llm_def failing_client_def upt_rec Let_def)

lemma call_llm_constant:
  "0 < m \<Longrightarrow> call_llm (constant_client t) m w = (t, w\<lparr>calls := Suc (calls w)\<rparr>)"
  by (simp add: call_llm_def constant_client_def upt_rec)

section \<open>Properties of the diagnostic policy\<close>

lemma diagnostic_attempts_calls_mono:
  "calls w \<le> calls (snd (diagnostic_attempts cl ld n as prev w))"
proof (induction as arbitrary: w prev)
  case Nil
  then show ?case by simp
next
  case (Cons a as)
  obtain t w1 where c: "call_llm cl 2 w = (t, w1)" by (cases "call_llm cl 2 w")
  have "calls w < calls (snd (call_llm cl 2 w))" by (rule call_llm_calls) simp
  with c have lt: "calls w < calls w1" by simp
  have ih: "calls w1 \<le> calls (snd (diagnostic_attempts cl ld n as t w1))" by (rule Cons.IH)
  show ?case using c lt ih
    by (auto split: option.splits sum.splits)
qed

lemma diagnostic_attempts_calls_strict:
  "as \<noteq> [] \<Longrightarrow> calls w < calls (snd (diagnostic_attempts cl ld n as prev w))"
proof (cases as)
  case Nil
  assume "as \<noteq> []" with Nil show ?thesis by simp
next
  case (Cons a rest)
  obtain t w1 where c: "call_llm cl 2 w = (t, w1)" by (cases "call_llm cl 2 w")
  have "calls w < calls (snd (call_llm cl 2 w))" by (rule call_llm_calls) simp
  with c have lt: "calls w < calls w1" by simp
  have ih: "calls w1 \<le> calls (snd (diagnostic_attempts cl ld n rest t w1))"
    by (rule diagnostic_attempts_calls_mono)
  show ?thesis using Cons c lt ih
    by (auto split: option.splits sum.splits)
qed

lemmas key_defs =
  k_sufficient_def k_reason_def k_recommendation_def k_confidence_def k_key_insights_def
  k_missing_aspects_def k_analyzed_interactions_def k_raw_analysis_def k_score_def k_level_def
  k_reasoning_def k_dimension_def k_dimension_id_def k_interactions_analyzed_def k_scorer_def
  py_def

text \<open>
  Claim C6. With five or more interactions the analysis returns the forced result
  (sufficient, recommendation \<open>score\<close>, confidence 1.0), and with fewer than three the forced
  result (not sufficient, recommendation \<open>continue\<close>, confidence 0.9); in both cases the
  world is unchanged, so no model call was made. Given a guidance, the number of model
  calls grows exactly when there are three or four interactions.
\<close>

theorem diagnostic_forced_branches:
  "(5 \<le> length ints \<longrightarrow>
      analyze_interaction_sufficiency cl ld di gi ints resps w = (Inr forced_score, w)) \<and>
   (length ints < 3 \<longrightarrow>
      analyze_interaction_sufficiency cl ld di gi ints resps w = (Inr forced_continue, w)) \<and>
   get_item forced_score k_sufficient = Inr (JBool True) \<and>
   get_item forced_score k_recommendation = Inr (JStr (py ''score'')) \<and>
   get_item forced_score k_confidence = Inr (JFloat 1) \<and>
   get_item forced_continue k_sufficient = Inr (JBool False) \<and>
   get_item forced_continue k_recommendation = Inr (JStr (py ''continue'')) \<and>
   get_item forced_continue k_confidence = Inr (JFloat (9 / 10)) \<and>
   (calls w < calls (snd (analyze_interaction_sufficiency cl ld di (Some g) ints resps w))
      \<longleftrightarrow> length ints = 3 \<or> length ints = 4)"
proof -
  have a: "5 \<le> length ints \<longrightarrow>
      analyze_interaction_sufficiency cl ld di gi ints resps w = (Inr forced_score, w)"
    by (simp add: analyze_interaction_sufficiency_def)
  have b: "length ints < 3 \<longrightarrow>
      analyze_interaction_sufficiency cl ld di gi ints resps w = (Inr forced_continue, w)"
    by (simp add: analyze_interaction_sufficiency_def)
  have c: "get_item forced_score k_sufficient = Inr (JBool True) \<and>
   get_item forced_score k_recommendation = Inr (JStr (py ''score'')) \<and>
   get_item forced_score k_confidence = Inr (JFloat 1)"
    by (simp add: get_item_def forced_score_def key_defs)
  have d: "get_item forced_continue k_sufficient = Inr (JBool False) \<and>
   get_item forced_continue k_recommendation = Inr (JStr (py ''continue'')) \<and>
   get_item forced_continue k_confidence = Inr (JFloat (9 / 10))"
    by (simp add: get_item_def forced_continue_def key_defs)
  have e: "calls w < calls (snd (analyze_interaction_sufficiency cl ld di (Some g) ints resps w))
      \<longleftrightarrow> length ints = 3 \<or> length ints = 4"
  proof (cases "length ints = 3 \<or> length ints = 4")
    case True
    then have "analyze_interaction_sufficiency cl ld di (Some g) ints resps w =
        diagnostic_attempts cl ld (length ints) [0, 1] [] w"
      by (auto simp: analyze_interaction_sufficiency_def)
    moreover have "calls w < calls (snd (diagnostic_attempts cl ld (length ints) [0, 1] [] w))"
      by (rule diagnostic_attempts_calls_strict) simp
    ultimately show ?thesis using True by simp
  next
    case False
    then have "5 \<le> length ints \<or> length ints < 3" by arith
    then have "snd (analyze_interaction_sufficiency cl ld di (Some g) ints resps w) = w"
      by (auto simp: analyze_interaction_sufficiency_def)
    then show ?thesis using False by simp
  qed
  from a b c d e show ?thesis by blast
qed

theorem diagnostic_forced_branches_witness:
  "5 \<le> length (replicate 5 sample_interaction) \<and>
   analyze_interaction_sufficiency failing_client decode_nothing sample_dimension None
     (replicate 5 sample_interaction) [] empty_world = (Inr forced_score, empty_world) \<and>
   length (replicate 2 sample_interaction) < 3 \<and>
   analyze_interaction_sufficiency failing_client decode_nothing sample_dimension None
     (replicate 2 sample_interaction) [] empty_world = (Inr forced_continue, empty_world) \<and>
   calls empty_world < calls (snd (analyze_interaction_sufficiency failing_client decode_nothing
     sample_dimension (Some sample_guidance) (replicate 3 sample_interaction) [] empty_world))"
  using diagnostic_forced_branches [where ints = "replicate 5 sample_interaction"
      and cl = failing_client and ld = decode_nothing and di = sample_dimension and gi = None
      and resps = "[]" and w = empty_world and g = sample_guidance]
    diagnostic_forced_branches [where ints = "replicate 2 sample_interaction"
      and cl = failing_client and ld = decode_nothing and di = sample_dimension and gi = None
      and resps = "[]" and w = empty_world and g = sample_guidance]
    diagnostic_forced_branches [where ints = "replicate 3 sample_interaction"
      and cl = failing_client and ld = decode_nothing and di = sample_dimension and gi = None
      and resps = "[]" and w = empty_world and g = sample_guidance]
  by simp

lemma required_not_analyzed:
  "list_all (\<lambda>field. map_of (AList.update k_analyzed_interactions v d) field \<noteq> None)
     diagnostic_required
   = list_all (\<lambda>field. map_of d field \<noteq> None) diagnostic_required"
  by (simp add: diagnostic_required_def update_conv' key_defs)

lemma diagnostic_attempt_fails:
  assumes "call_llm cl 2 w = (a1, w1)" and "diagnostic_parse_fails ld a1"
  shows "diagnostic_attempts cl ld n (attempt # rest) prev w =
         diagnostic_attempts cl ld n rest a1 w1"
proof (cases "ld (clean_json_response a1)")
  case None
  with assms show ?thesis by simp
next
  case (Some v)
  with assms(2) obtain d where v: "v = JObj d"
    and miss: "\<not> list_all (\<lambda>field. map_of d field \<noteq> None) diagnostic_required"
    by (cases v) (auto simp: diagnostic_parse_fails_def)
  have "\<not> list_all (\<lambda>field. map_of (AList.update k_analyzed_interactions (JInt (int n)) d)
              field \<noteq> None) diagnostic_required"
    unfolding required_not_analyzed by (rule miss)
  then show ?thesis using assms(1) Some v by simp
qed

text \<open>
  Claim C7, as the code has it. With three or four interactions, when both attempts fail
  structurally (the answer does not decode, or decodes to a dict that lacks a required
  field), the analysis returns the default result: not sufficient, recommendation
  \<open>continue\<close>, and confidence 0.5 (not 0.9, which is the confidence of the forced
  result below three rounds).
\<close>

theorem diagnostic_fallback_after_two_failures:
  assumes "length ints = 3 \<or> length ints = 4"
      and "call_llm cl 2 w = (a1, w1)" and "call_llm cl 2 w1 = (a2, w2)"
      and "diagnostic_parse_fails ld a1" and "diagnostic_parse_fails ld a2"
  shows "analyze_interaction_sufficiency cl ld di (Some g) ints resps w =
           (Inr (diagnostic_default (length ints) a2), w2) \<and>
         get_item (diagnostic_default (length ints) a2) k_sufficient = Inr (JBool False) \<and>
         get_item (diagnostic_default (length ints) a2) k_recommendation =
           Inr (JStr (py ''continue'')) \<and>
         get_item (diagnostic_default (length ints) a2) k_confidence = Inr (JFloat (1 / 2))"
proof -
  have "analyze_interaction_sufficiency cl ld di (Some g) ints resps w =
        diagnostic_attempts cl ld (length ints) [0, 1] [] w"
    using assms(1) by (auto simp: analyze_interaction_sufficiency_def)
  also have "\<dots> = diagnostic_attempts cl ld (length ints) [1] a1 w1"
    using assms(2,4) by (rule diagnostic_attempt_fails)
  also have "\<dots> = diagnostic_attempts cl ld (length ints) [] a2 w2"
    using assms(3,5) by (rule diagnostic_attempt_fails)
  finally have 1: "analyze_interaction_sufficiency cl ld di (Some g) ints resps w =
           (Inr (diagnostic_default (length ints) a2), w2)" by simp
  have 2: "get_item (diagnostic_default (length ints) a2) k_sufficient = Inr (JBool False)"
    using assms(1) by (auto simp: get_item_def diagnostic_default_def)
  have 3: "get_item (diagnostic_default (length ints) a2) k_recommendation =
           Inr (JStr (py ''continue''))"
    using assms(1) by (auto simp: get_item_def diagnostic_default_def key_defs)
  have 4: "get_item (diagnostic_default (length ints) a2) k_confidence = Inr (JFloat (1 / 2))"
    by (simp add: get_item_def diagnostic_default_def key_defs)
  from 1 2 3 4 show ?thesis by simp
qed

lemma failing_answer_fails:
  "diagnostic_parse_fails decode_nothing a"
  by (simp add: diagnostic_parse_fails_def decode_nothing_def)

theorem diagnostic_fallback_witness:
  "(length (replicate 3 sample_interaction) = 3 \<or> length (replicate 3 sample_interaction) = 4) \<and>
   diagnostic_parse_fails decode_nothing (error_msg 2 (Some (py ''timeout''))) \<and>
   result_field (fst (analyze_interaction_sufficiency failing_client decode_nothing
       sample_dimension (Some sample_guidance) (replicate 3 sample_interaction) [] empty_world))
     k_recommendation = Inr (JStr (py ''continue'')) \<and>
   result_field (fst (analyze_interaction_sufficiency failing_client decode_nothing
       sample_dimension (Some sample_guidance) (replicate 3 sample_interaction) [] empty_world))
     k_confidence = Inr (JFloat (1 / 2))"
proof -
  have l: "length (replicate 3 sample_interaction) = 3 \<or> length (replicate 3 sample_interaction) = 4"
    by simp
  have f: "diagnostic_parse_fails decode_nothing (error_msg 2 (Some (py ''timeout'')))"
    by (rule failing_answer_fails)
  note t = diagnostic_fallback_after_two_failures
    [OF l call_llm_failing_2 call_llm_failing_2 f f,
     where di = sample_dimension and g = sample_guidance and resps = "[]" and w = empty_world]
  show ?thesis using l f t by (simp add: result_field_def)
qed

text \<open>
  With a service that always fails and three interactions, the confidence of the default
  result is 0.5: the claim's 0.9 does not hold.
\<close>

theorem diagnostic_fallback_confidence_is_not_nine_tenths:
  "result_field (fst (analyze_interaction_sufficiency failing_client decode_nothing
       sample_dimension (Some sample_guidance) (replicate 3 sample_interaction) [] empty_world))
     k_confidence \<noteq> Inr (JFloat (9 / 10))"
  by (simp add: analyze_interaction_sufficiency_def call_llm_failing_2 decode_nothing_def
      result_field_def get_item_def diagnostic_default_def key_defs)

section \<open>Properties of the scoring step\<close>

text \<open>
  Claim C3 fails on the code. The model answers
  \<open>{"score": "45", "level": "B", "reasoning": "clear", "confidence": 0.8}\<close>: the answer
  decodes, has all required fields, and the comparison \<open>score < 10\<close> of the clamp raises
  \<open>TypeError\<close> on the text \<open>"45"\<close>, which \<open>score_dimension\<close> does not catch.
\<close>

theorem score_dimension_raises_on_text_score:
  "fst (score_dimension (constant_client quoted_score_answer)
          (decode_table [(quoted_score_answer, quoted_score_value)])
          di (Some g) ints resps diag w) = Inl TypeError"
  by (simp add: score_dimension_def call_llm_constant decode_table_def quoted_score_value_def
      scoring_required_def clamp_score_def py_less_def dict_get_def
      quoted_score_answer_def normalizer_eval key_defs)

section \<open>Properties of the session orchestrator\<close>

text \<open>
  Claim C10. On a session whose status is not running, \<open>process_user_response\<close>
  returns the error object and leaves the whole state of the session, and the world,
  unchanged.
\<close>

theorem process_user_response_refused_when_not_running:
  "status s \<noteq> Running \<Longrightarrow>
   process_user_response cl ld user_input s w = (Inr (ErrorReply err_not_running), s, w)"
  by (simp add: process_user_response_def)

theorem process_user_response_refused_witness:
  "status (init_system None None []) \<noteq> Running \<and>
   process_user_response failing_client decode_nothing (py ''hello'') (init_system None None [])
     empty_world = (Inr (ErrorReply err_not_running), init_system None None [], empty_world)"
proof -
  have a: "status (init_system None None []) \<noteq> Running" by (simp add: init_system_def)
  show ?thesis using a process_user_response_refused_when_not_running [OF a] by simp
qed

text \<open>
  Claim C5. The overall level of an integer total: excellent from 350, good from 280 to
  349, average from 210 to 279, poor from 140 to 209, very poor below 140; and the eight
  boundary totals 350, 349, 280, 279, 210, 209, 140, 139 fall as claimed.
\<close>

theorem overall_level_thresholds:
  "(350 \<le> t \<longrightarrow> overall_level_of (PInt t) = level_excellent) \<and>
   (280 \<le> t \<and> t < 350 \<longrightarrow> overall_level_of (PInt t) = level_good) \<and>
   (210 \<le> t \<and> t < 280 \<longrightarrow> overall_level_of (PInt t) = level_average) \<and>
   (140 \<le> t \<and> t < 210 \<longrightarrow> overall_level_of (PInt t) = level_poor) \<and>
   (t < 140 \<longrightarrow> overall_level_of (PInt t) = level_very_poor) \<and>
   map (\<lambda>n. overall_level_of (PInt n)) [350, 349, 280, 279, 210, 209, 140, 139] =
     [level_excellent, level_good, level_good, level_average, level_average, level_poor,
      level_poor, level_very_poor]"
  by (simp add: overall_level_of_def)

theorem overall_level_thresholds_witness:
  "(350::int) \<le> 400 \<and> overall_level_of (PInt 400) = level_excellent \<and>
   (280::int) \<le> 301 \<and> (301::int) < 350 \<and> overall_level_of (PInt 301) = level_good \<and>
   (210::int) \<le> 250 \<and> (250::int) < 280 \<and> overall_level_of (PInt 250) = level_average \<and>
   (140::int) \<le> 150 \<and> (150::int) < 210 \<and> overall_level_of (PInt 150) = level_poor \<and>
   (70::int) < 140 \<and> overall_level_of (PInt 70) = level_very_poor"
  using overall_level_thresholds [of 400] overall_level_thresholds [of 301]
    overall_level_thresholds [of 250] overall_level_thresholds [of 150]
    overall_level_thresholds [of 70]
  by simp

section \<open>Properties of the final report and of the ledger\<close>

lemma sum_scores_integers:
  "list_all (\<lambda>r. case map_of r k_score of Some (JInt n) \<Rightarrow> True | _ \<Rightarrow> False) rs \<Longrightarrow>
   sum_scores (PInt a) rs = Inr (PInt (a + sum_list (map int_score rs)))"
proof (induction rs arbitrary: a)
  case Nil
  then show ?case by simp
next
  case (Cons r rs)
  from Cons.prems obtain n where n: "map_of r k_score = Some (JInt n)"
    by (auto split: option.splits json.splits)
  from Cons.prems have rest:
    "list_all (\<lambda>r. case map_of r k_score of Some (JInt n) \<Rightarrow> True | _ \<Rightarrow> False) rs" by simp
  show ?case using n Cons.IH [OF rest, of "a + n"]
    by (simp add: get_item_def int_score_def)
qed

lemma complete_assessment_report:
  assumes "complete_assessment fsr s w = (Inr (CompletedReply rep), s', w')"
  shows "sum_scores (PInt 0) (map snd (dimension_scores s)) = Inr (total_score rep) \<and>
         average_score rep = py_round1 (num_val (total_score rep) / 7) \<and>
         overall_level rep = overall_level_of (total_score rep) \<and>
         report_dimension_scores rep = dimension_scores s \<and>
         status s' = Completed \<and>
         ledger w' = ledger (save_user_score_summary s (total_score rep) w)"
  using assms unfolding complete_assessment_def
  by (auto simp: Let_def save_user_score_summary_def split: sum.splits)

text \<open>
  Claim C4, as the code has it. When \<open>_complete_assessment\<close> returns its report and the
  scores of the recorded results are integers, the report holds those results, its total
  is the exact integer sum of their scores, and its overall level is the banding of that
  total. Its average is not the quotient itself: it is the total divided by 7 and rounded
  to one decimal (\<open>round(average_score, 1)\<close>).
\<close>

theorem final_report_total_and_average:
  assumes "complete_assessment fsr s w = (Inr (CompletedReply rep), s', w')"
      and "integer_scores (dimension_scores s)"
  shows "report_dimension_scores rep = dimension_scores s \<and>
         total_score rep = PInt (sum_list (map int_score (map snd (dimension_scores s)))) \<and>
         average_score rep =
           py_round1 (of_int (sum_list (map int_score (map snd (dimension_scores s)))) / 7) \<and>
         overall_level rep = overall_level_of (total_score rep)"
proof -
  note r = complete_assessment_report [OF assms(1)]
  have "sum_scores (PInt 0) (map snd (dimension_scores s)) =
        Inr (PInt (0 + sum_list (map int_score (map snd (dimension_scores s)))))"
    using assms(2) unfolding integer_scores_def by (rule sum_scores_integers)
  with r have t: "total_score rep = PInt (sum_list (map int_score (map snd (dimension_scores s))))"
    by simp
  with r show ?thesis by simp
qed

lemma sample_scores_total:
  "sum_scores (PInt 0) (map snd sample_scores) = Inr (PInt 300)"
  by (simp add: sample_scores_def sample_result_def get_item_def key_defs)

lemma complete_finishing_session:
  "fst (complete_assessment (sample_result 42) (finishing_session uid uname) w) =
     Inr (CompletedReply (sample_report uid uname))"
proof -
  have d: "dimension_scores (finishing_session uid uname) = sample_scores"
    by (simp add: finishing_session_def)
  have r: "py_round1 (300 / 7) = 429 / 10"
    by code_simp
  have f: "get_item (sample_result 42) k_dimension = Inr (JStr (py ''dimension''))"
    "get_item (sample_result 42) k_score = Inr (JInt 42)"
    "get_item (sample_result 42) k_level = Inr (JStr level_neutral)"
    by (simp_all add: sample_result_def get_item_def key_defs)
  show ?thesis
    by (simp add: complete_assessment_def d sample_scores_total f r Let_def overall_level_of_def
        sample_report_def)
qed

lemma complete_finishing_session_triple:
  "complete_assessment (sample_result 42) (finishing_session uid uname) w =
     (Inr (CompletedReply (sample_report uid uname)),
      fst (snd (complete_assessment (sample_result 42) (finishing_session uid uname) w)),
      snd (snd (complete_assessment (sample_result 42) (finishing_session uid uname) w)))"
  using complete_finishing_session [of uid uname w] by (metis prod.collapse)

lemma sample_scores_integer:
  "integer_scores (dimension_scores (finishing_session uid uname))"
  by (simp add: finishing_session_def integer_scores_def sample_scores_def sample_result_def
      key_defs)

lemma sample_scores_sum:
  "sum_list (map int_score (map snd (dimension_scores (finishing_session uid uname)))) = 300"
  by (simp add: finishing_session_def sample_scores_def sample_result_def int_score_def key_defs)

theorem final_report_witness:
  "complete_assessment (sample_result 42) (finishing_session None None) empty_world =
     (Inr (CompletedReply (sample_report None None)),
      fst (snd (complete_assessment (sample_result 42) (finishing_session None None) empty_world)),
      snd (snd (complete_assessment (sample_result 42) (finishing_session None None) empty_world))) \<and>
   integer_scores (dimension_scores (finishing_session None None)) \<and>
   total_score (sample_report None None) = PInt 300 \<and>
   average_score (sample_report None None) = py_round1 (300 / 7)"
  using final_report_total_and_average
    [OF complete_finishing_session_triple [of None None empty_world] sample_scores_integer]
    complete_finishing_session_triple [of None None empty_world]
    sample_scores_integer [of None None] sample_scores_sum [of None None]
  by simp

text \<open>
  Six dimensions scored 43 and one scored 42 give the total 300; the report's average is
  42.9, which is not 300 / 7.
\<close>

theorem final_report_average_is_rounded:
  "map_option total_score (reply_report (fst (complete_assessment (sample_result 42)
      (finishing_session None None) empty_world))) = Some (PInt 300) \<and>
   map_option average_score (reply_report (fst (complete_assessment (sample_result 42)
      (finishing_session None None) empty_world))) \<noteq> Some (300 / 7)"
  by (simp add: complete_finishing_session reply_report_def sample_report_def)









section \<open>Rounds of a dimension\<close>







lemma print_diagnosis_forced:
  "print_diagnosis forced_score = None"
  by (simp add: print_diagnosis_def forced_score_def get_item_def key_defs)





















end
